theory Spec2Isabelle
  imports Complex_Main "HOL-Library.Word"
begin

section \<open>Data model\<close>

text \<open>
  The records follow the Go structs of \<^verbatim>\<open>internal/model/router.go\<close> and of the
  \<^verbatim>\<open>agent\<close> package. A Go \<^verbatim>\<open>string\<close> is a byte string, here a \<^typ>\<open>string\<close>;
  \<^verbatim>\<open>map[string]interface{}\<close> tool inputs are kept as association lists of key and
  rendered value; \<^verbatim>\<open>time.Time\<close> is a millisecond count.
\<close>

record ToolCall =
  tc_ID :: string
  tc_Name :: string
  tc_Input :: "(string \<times> string) list"

text \<open>\<^verbatim>\<open>model.Message\<close>, \<^verbatim>\<open>model.ToolDef\<close>, \<^verbatim>\<open>model.Request\<close>, \<^verbatim>\<open>model.Usage\<close> and
  \<^verbatim>\<open>model.Response\<close>. The \<^verbatim>\<open>Schema interface{}\<close> of a tool definition is kept as its
  rendered text.\<close>

record ModelMessage =
  mRole :: string
  mContent :: string
  mToolCalls :: "ToolCall list"
  mToolCallID :: string

record ToolDef =
  td_Name :: string
  td_Description :: string
  td_Schema :: string

record Request =
  Messages :: "ModelMessage list"
  Tools :: "ToolDef list"
  MaxTokens :: int
  Temperature :: real
  Model :: string
  WorkingDir :: string

record Usage =
  InputTokens :: int
  OutputTokens :: int

record Response =
  rContent :: string
  rToolCalls :: "ToolCall list"
  rModel :: string
  rUsage :: Usage
  rFinishReason :: string

text \<open>\<^verbatim>\<open>agent.Message\<close>\<close>

record Message =
  Role :: string
  Content :: string
  Timestamp :: int
  ToolCalls :: "ToolCall list"
  ToolCallID :: string
  ToolName :: string

section \<open>Conversation memory\<close>

text \<open>
  \<^verbatim>\<open>Memory\<close> holds \<^verbatim>\<open>sessions map[string][]Message\<close> and \<^verbatim>\<open>maxSize int\<close>; the mutex
  serialises the operations, each of which is modelled as one atomic step.
\<close>

record Memory =
  sessions :: "string \<rightharpoonup> Message list"
  maxSize :: int

definition NewMemory :: Memory where
  "NewMemory = \<lparr>sessions = Map.empty, maxSize = 200\<rparr>"

text \<open>Indexing a Go map at a missing key yields the nil slice.\<close>

definition lookup_session :: "Memory \<Rightarrow> string \<Rightarrow> Message list" where
  "lookup_session m sessionID = (case sessions m sessionID of None \<Rightarrow> [] | Some h \<Rightarrow> h)"

text \<open>
  \<^verbatim>\<open>Memory.Add\<close>. The slice expressions \<^verbatim>\<open>history[:10]\<close> and
  \<^verbatim>\<open>history[len(history)-150:]\<close> are in range whenever the trimming branch is taken
  with \<^verbatim>\<open>maxSize >= 150\<close>; \<^verbatim>\<open>NewMemory\<close> is the only constructor and nothing else
  assigns the field, so every store of the program has \<^verbatim>\<open>maxSize = 200\<close>.
\<close>

definition Add :: "Memory \<Rightarrow> string \<Rightarrow> Message \<Rightarrow> Memory" where
  "Add m sessionID msg =
     (let history = lookup_session m sessionID @ [msg] in
      if int (length history) > maxSize m
      then m\<lparr>sessions := (sessions m)(sessionID \<mapsto>
              take 10 history @ drop (length history - 150) history)\<rparr>
      else m\<lparr>sessions := (sessions m)(sessionID \<mapsto> history)\<rparr>)"

text \<open>\<^verbatim>\<open>Memory.Get\<close> returns a copy of the stored slice.\<close>

definition Get :: "Memory \<Rightarrow> string \<Rightarrow> Message list" where
  "Get m sessionID = lookup_session m sessionID"

definition Clear :: "Memory \<Rightarrow> string \<Rightarrow> Memory" where
  "Clear m sessionID = m\<lparr>sessions := (sessions m)(sessionID := None)\<rparr>"

definition MessageCount :: "Memory \<Rightarrow> string \<Rightarrow> int" where
  "MessageCount m sessionID = int (length (lookup_session m sessionID))"

section \<open>Regular expressions of the firewall\<close>

text \<open>
  The firewall's patterns are Go \<^verbatim>\<open>regexp\<close> expressions built from literals, character
  classes, bounded and unbounded repetition of a class, optional parts, alternation and
  concatenation, some under the flag \<^verbatim>\<open>(?i)\<close>. The syntax tree below has these forms and
  no others; capture groups do not influence which text is matched and are not
  represented. Texts are byte strings and the matcher reads them bytewise, which agrees
  with Go's rune-wise reading on ASCII text.
\<close>

datatype citem = CChar char | CRange char char | CSpace

datatype cclass = Pos "citem list" | Neg "citem list"

datatype regex =
    Lit string
  | Cls cclass
  | Rep cclass nat "nat option"
  | Seq regex regex
  | Alt regex regex
  | Opt regex

record pattern =
  fold_case :: bool
  expr :: regex

text \<open>\<^verbatim>\<open>\s\<close> is tab, newline, form feed, carriage return and space.\<close>

definition is_space :: "char \<Rightarrow> bool" where
  "is_space c = (c \<in> set [CHR 0x09, CHR 0x0A, CHR 0x0C, CHR 0x0D, CHR '' ''])"

definition to_lower :: "char \<Rightarrow> char" where
  "to_lower c =
     (let n = (of_char c :: nat) in if 65 \<le> n \<and> n \<le> 90 then char_of (n + 32) else c)"

definition to_upper :: "char \<Rightarrow> char" where
  "to_upper c =
     (let n = (of_char c :: nat) in if 97 \<le> n \<and> n \<le> 122 then char_of (n - 32) else c)"

fun in_item :: "citem \<Rightarrow> char \<Rightarrow> bool" where
  "in_item (CChar x) c = (c = x)"
| "in_item (CRange lo hi) c =
     ((of_char lo :: nat) \<le> of_char c \<and> (of_char c :: nat) \<le> of_char hi)"
| "in_item CSpace c = is_space c"

text \<open>Under \<^verbatim>\<open>(?i)\<close> a class also holds the other case of each of its letters.\<close>

definition in_items :: "bool \<Rightarrow> citem list \<Rightarrow> char \<Rightarrow> bool" where
  "in_items fc its c =
     (if fc then list_ex (\<lambda>it. in_item it (to_lower c) \<or> in_item it (to_upper c)) its
      else list_ex (\<lambda>it. in_item it c) its)"

fun in_class :: "bool \<Rightarrow> cclass \<Rightarrow> char \<Rightarrow> bool" where
  "in_class fc (Pos its) c = in_items fc its c"
| "in_class fc (Neg its) c = (\<not> in_items fc its c)"

definition lit_eq :: "bool \<Rightarrow> char \<Rightarrow> char \<Rightarrow> bool" where
  "lit_eq fc x c = (if fc then to_lower x = to_lower c else x = c)"

fun lit_prefix :: "bool \<Rightarrow> string \<Rightarrow> string \<Rightarrow> string option" where
  "lit_prefix fc [] s = Some s"
| "lit_prefix fc (x # xs) [] = None"
| "lit_prefix fc (x # xs) (c # cs) = (if lit_eq fc x c then lit_prefix fc xs cs else None)"

text \<open>
  Repetition is greedy: with \<open>k\<close> leading bytes in the class, the counts tried are the
  largest admissible one first, down to the lower bound.
\<close>

definition rep_counts :: "nat \<Rightarrow> nat option \<Rightarrow> nat \<Rightarrow> nat list" where
  "rep_counts lo hi k = rev [lo ..< Suc (case hi of None \<Rightarrow> k | Some n \<Rightarrow> min n k)]"

text \<open>
  \<open>backtrack fc r s\<close> lists the remainders of \<open>s\<close> after each way of matching \<open>r\<close> at its
  start, in the order a backtracking search finds them. Go returns, among the matches at
  the leftmost position, the one such a search finds first.
\<close>

fun backtrack :: "bool \<Rightarrow> regex \<Rightarrow> string \<Rightarrow> string list" where
  "backtrack fc (Lit l) s = (case lit_prefix fc l s of None \<Rightarrow> [] | Some r \<Rightarrow> [r])"
| "backtrack fc (Cls cl) s =
     (case s of [] \<Rightarrow> [] | c # cs \<Rightarrow> if in_class fc cl c then [cs] else [])"
| "backtrack fc (Rep cl lo hi) s =
     map (\<lambda>j. drop j s) (rep_counts lo hi (length (takeWhile (in_class fc cl) s)))"
| "backtrack fc (Seq r1 r2) s = concat (map (backtrack fc r2) (backtrack fc r1 s))"
| "backtrack fc (Alt r1 r2) s = backtrack fc r1 s @ backtrack fc r2 s"
| "backtrack fc (Opt r) s = backtrack fc r s @ [s]"

text \<open>Length of the preferred match at the start of \<open>s\<close>.\<close>

definition match_prefix :: "pattern \<Rightarrow> string \<Rightarrow> nat option" where
  "match_prefix p s =
     (case backtrack (fold_case p) (expr p) s of
        [] \<Rightarrow> None
      | r # _ \<Rightarrow> Some (length s - length r))"

text \<open>Offset and length of the leftmost match in \<open>s\<close>.\<close>

fun find_from :: "pattern \<Rightarrow> string \<Rightarrow> (nat \<times> nat) option" where
  "find_from p [] = (case match_prefix p [] of None \<Rightarrow> None | Some n \<Rightarrow> Some (0, n))"
| "find_from p (c # cs) =
     (case match_prefix p (c # cs) of
        Some n \<Rightarrow> Some (0, n)
      | None \<Rightarrow> (case find_from p cs of None \<Rightarrow> None | Some (i, n) \<Rightarrow> Some (Suc i, n)))"


text \<open>
  The loop of \<^verbatim>\<open>Regexp.replaceAll\<close>: \<open>a0\<close> and \<open>a1\<close> delimit the match found from
  \<open>searchPos\<close> on; an empty match right after the previous match is not replaced; the
  search always advances by at least one byte.
\<close>

function replaceAll ::
  "pattern \<Rightarrow> (string \<Rightarrow> string) \<Rightarrow> string \<Rightarrow> nat \<Rightarrow> nat \<Rightarrow> string \<Rightarrow> string" where
  "replaceAll p repl src lastMatchEnd searchPos buf =
     (if searchPos > length src then buf @ drop lastMatchEnd src
      else case find_from p (drop searchPos src) of
        None \<Rightarrow> buf @ drop lastMatchEnd src
      | Some (i, n) \<Rightarrow>
          (let a0 = searchPos + i; a1 = searchPos + i + n;
               buf1 = buf @ take (a0 - lastMatchEnd) (drop lastMatchEnd src);
               buf2 = (if a1 > lastMatchEnd \<or> a0 = 0
                       then buf1 @ repl (take (a1 - a0) (drop a0 src)) else buf1);
               width = (if searchPos < length src then 1 else 0);
               next = (if searchPos + width > a1 then searchPos + width
                       else if searchPos + 1 > a1 then searchPos + 1 else a1)
           in replaceAll p repl src a1 next buf2))"
  by pat_completeness auto
termination
  by (relation "measure (\<lambda>(p, repl, src, l, pos, buf). Suc (length src) - pos)")
     (auto split: if_splits)

declare replaceAll.simps [simp del]

definition ReplaceAllStringFunc :: "pattern \<Rightarrow> string \<Rightarrow> (string \<Rightarrow> string) \<Rightarrow> string" where
  "ReplaceAllStringFunc p src repl = replaceAll p repl src 0 0 []"

fun seqs :: "regex list \<Rightarrow> regex" where
  "seqs [] = Lit []"
| "seqs [r] = r"
| "seqs (r # rs) = Seq r (seqs rs)"

fun alts :: "regex list \<Rightarrow> regex" where
  "alts [] = Lit []"
| "alts [r] = r"
| "alts (r # rs) = Alt r (alts rs)"

section \<open>Secret firewall\<close>

text \<open>\<^verbatim>\<open>Firewall\<close> of \<^verbatim>\<open>internal/model/firewall.go\<close>, with its patterns in compiled form.\<close>

record Firewall =
  patterns :: "pattern list"
  keywords_fw :: "string list"

definition dquote :: char where
  "dquote = CHR 0x22"

definition squote :: char where
  "squote = CHR 0x27"

text \<open>\<^verbatim>\<open>\s*\<close>, \<^verbatim>\<open>[:=]\<close>, \<^verbatim>\<open>['"]?\<close>, \<^verbatim>\<open>[_-]?\<close> and the letter and digit ranges.\<close>

definition spaces :: regex where
  "spaces = Rep (Pos [CSpace]) 0 None"

definition assign :: regex where
  "assign = Cls (Pos [CChar CHR '':'', CChar CHR ''=''])"

definition quote_opt :: regex where
  "quote_opt = Opt (Cls (Pos [CChar squote, CChar dquote]))"

definition dash_opt :: regex where
  "dash_opt = Opt (Cls (Pos [CChar CHR ''_'', CChar CHR ''-'']))"

definition alnum :: "citem list" where
  "alnum = [CRange CHR ''A'' CHR ''Z'', CRange CHR ''a'' CHR ''z'', CRange CHR ''0'' CHR ''9'']"

text \<open>\<^verbatim>\<open>(?i)(api[_-]?key|apikey)\s*[:=]\s*['"]?([A-Za-z0-9_\-]{20,})['"]?\<close>\<close>

definition pat_api_key :: pattern where
  "pat_api_key = \<lparr>fold_case = True, expr = seqs
     [Alt (seqs [Lit ''api'', dash_opt, Lit ''key'']) (Lit ''apikey''),
      spaces, assign, spaces, quote_opt,
      Rep (Pos (alnum @ [CChar CHR ''_'', CChar CHR ''-''])) 20 None, quote_opt]\<rparr>"

text \<open>\<^verbatim>\<open>(?i)(secret|token|password|passwd|pwd)\s*[:=]\s*['"]?([^\s'"]{8,})['"]?\<close>\<close>

definition pat_secret :: pattern where
  "pat_secret = \<lparr>fold_case = True, expr = seqs
     [alts [Lit ''secret'', Lit ''token'', Lit ''password'', Lit ''passwd'', Lit ''pwd''],
      spaces, assign, spaces, quote_opt,
      Rep (Neg [CSpace, CChar squote, CChar dquote]) 8 None, quote_opt]\<rparr>"

text \<open>\<^verbatim>\<open>(?i)(bearer\s+)[A-Za-z0-9_\-\.]{20,}\<close>\<close>

definition pat_bearer :: pattern where
  "pat_bearer = \<lparr>fold_case = True, expr = seqs
     [Lit ''bearer'', Rep (Pos [CSpace]) 1 None,
      Rep (Pos (alnum @ [CChar CHR ''_'', CChar CHR ''-'', CChar CHR ''.''])) 20 None]\<rparr>"

text \<open>\<^verbatim>\<open>AKIA[0-9A-Z]{16}\<close>\<close>

definition pat_aws_id :: pattern where
  "pat_aws_id = \<lparr>fold_case = False, expr = seqs
     [Lit ''AKIA'', Rep (Pos [CRange CHR ''0'' CHR ''9'', CRange CHR ''A'' CHR ''Z'']) 16 (Some 16)]\<rparr>"

text \<open>\<^verbatim>\<open>(?i)aws[_-]?secret[_-]?access[_-]?key\s*[:=]\s*['"]?([A-Za-z0-9/+=]{40})['"]?\<close>\<close>

definition pat_aws_secret :: pattern where
  "pat_aws_secret = \<lparr>fold_case = True, expr = seqs
     [Lit ''aws'', dash_opt, Lit ''secret'', dash_opt, Lit ''access'', dash_opt, Lit ''key'',
      spaces, assign, spaces, quote_opt,
      Rep (Pos (alnum @ [CChar CHR ''/'', CChar CHR ''+'', CChar CHR ''=''])) 40 (Some 40),
      quote_opt]\<rparr>"

text \<open>\<^verbatim>\<open>(?i)(DefaultEndpointsProtocol=https;AccountName=)[^\s;]+\<close>\<close>

definition pat_azure_conn :: pattern where
  "pat_azure_conn = \<lparr>fold_case = True, expr = seqs
     [Lit ''DefaultEndpointsProtocol=https;AccountName='',
      Rep (Neg [CSpace, CChar CHR '';'']) 1 None]\<rparr>"

text \<open>\<^verbatim>\<open>(?i)(azure[_-]?(?:storage|devops|ad)[_-]?(?:key|token|secret|password))\s*[:=]\s*['"]?([^\s'"]{8,})['"]?\<close>\<close>

definition pat_azure_key :: pattern where
  "pat_azure_key = \<lparr>fold_case = True, expr = seqs
     [Lit ''azure'', dash_opt, alts [Lit ''storage'', Lit ''devops'', Lit ''ad''], dash_opt,
      alts [Lit ''key'', Lit ''token'', Lit ''secret'', Lit ''password''],
      spaces, assign, spaces, quote_opt,
      Rep (Neg [CSpace, CChar squote, CChar dquote]) 8 None, quote_opt]\<rparr>"

text \<open>\<^verbatim>\<open>(?i)jdbc:[a-z]+://[^\s]*password=[^\s&;]+\<close>\<close>

definition pat_jdbc :: pattern where
  "pat_jdbc = \<lparr>fold_case = True, expr = seqs
     [Lit ''jdbc:'', Rep (Pos [CRange CHR ''a'' CHR ''z'']) 1 None, Lit ''://'',
      Rep (Neg [CSpace]) 0 None, Lit ''password='',
      Rep (Neg [CSpace, CChar CHR ''&'', CChar CHR '';'']) 1 None]\<rparr>"

text \<open>\<^verbatim>\<open>-----BEGIN (?:RSA |EC |OPENSSH )?PRIVATE KEY-----\<close>\<close>

definition pat_private_key :: pattern where
  "pat_private_key = \<lparr>fold_case = False, expr = seqs
     [Lit ''-----BEGIN '', Opt (alts [Lit ''RSA '', Lit ''EC '', Lit ''OPENSSH '']),
      Lit ''PRIVATE KEY-----'']\<rparr>"

text \<open>\<^verbatim>\<open>gh[ps]_[A-Za-z0-9_]{36,}\<close>\<close>

definition pat_github :: pattern where
  "pat_github = \<lparr>fold_case = False, expr = seqs
     [Lit ''gh'', Cls (Pos [CChar CHR ''p'', CChar CHR ''s'']), Lit ''_'',
      Rep (Pos (alnum @ [CChar CHR ''_''])) 36 None]\<rparr>"

text \<open>\<^verbatim>\<open>glpat-[A-Za-z0-9_\-]{20,}\<close>\<close>

definition pat_gitlab :: pattern where
  "pat_gitlab = \<lparr>fold_case = False, expr = seqs
     [Lit ''glpat-'', Rep (Pos (alnum @ [CChar CHR ''_'', CChar CHR ''-''])) 20 None]\<rparr>"

text \<open>\<^verbatim>\<open>sk-ant-[A-Za-z0-9_\-]{20,}\<close>\<close>

definition pat_sk_ant :: pattern where
  "pat_sk_ant = \<lparr>fold_case = False, expr = seqs
     [Lit ''sk-ant-'', Rep (Pos (alnum @ [CChar CHR ''_'', CChar CHR ''-''])) 20 None]\<rparr>"

text \<open>\<^verbatim>\<open>sk-[A-Za-z0-9]{20,}\<close>\<close>

definition pat_sk :: pattern where
  "pat_sk = \<lparr>fold_case = False, expr = seqs [Lit ''sk-'', Rep (Pos alnum) 20 None]\<rparr>"

definition defaultPatterns :: "pattern list" where
  "defaultPatterns =
     [pat_api_key, pat_secret, pat_bearer, pat_aws_id, pat_aws_secret, pat_azure_conn,
      pat_azure_key, pat_jdbc, pat_private_key, pat_github, pat_gitlab, pat_sk_ant, pat_sk]"

definition defaultKeywords :: "string list" where
  "defaultKeywords =
     [''password'', ''passwd'', ''secret'', ''api_key'', ''apikey'', ''access_token'',
      ''auth_token'', ''credentials'', ''private_key'', ''client_secret'']"

definition NewFirewall :: Firewall where
  "NewFirewall = \<lparr>patterns = defaultPatterns, keywords_fw = defaultKeywords\<rparr>"

text \<open>\<^verbatim>\<open>strings.IndexAny\<close>: index of the first byte of \<open>s\<close> that occurs in \<open>chars\<close>.\<close>

definition IndexAny :: "string \<Rightarrow> string \<Rightarrow> nat option" where
  "IndexAny s chars =
     (if list_ex (\<lambda>c. c \<in> set chars) s
      then Some (length (takeWhile (\<lambda>c. c \<notin> set chars) s)) else None)"

definition HasPrefix :: "string \<Rightarrow> string \<Rightarrow> bool" where
  "HasPrefix s pre = (take (length pre) s = pre)"

text \<open>The replacement function of \<^verbatim>\<open>ScrubText\<close>: keep the key name, redact the value.\<close>

definition redact :: "string \<Rightarrow> string" where
  "redact match =
     (case IndexAny match '':='' of
        Some idx \<Rightarrow> take (idx + 1) match @ '' [REDACTED]''
      | None \<Rightarrow>
          if HasPrefix match ''-----BEGIN'' then ''[REDACTED PRIVATE KEY]''
          else ''[REDACTED]'')"

definition ScrubText :: "Firewall \<Rightarrow> string \<Rightarrow> string" where
  "ScrubText f text =
     foldl (\<lambda>result pattern. ReplaceAllStringFunc pattern result redact) text (patterns f)"


definition AddPattern :: "Firewall \<Rightarrow> pattern \<Rightarrow> Firewall" where
  "AddPattern f re = f\<lparr>patterns := patterns f @ [re]\<rparr>"

text \<open>\<^verbatim>\<open>Firewall.ScrubRequest\<close>: the composite literal leaves \<^verbatim>\<open>WorkingDir\<close> at its zero value.\<close>

definition ScrubRequest :: "Firewall \<Rightarrow> Request \<Rightarrow> Request" where
  "ScrubRequest f req =
     \<lparr>Messages = map (\<lambda>msg. \<lparr>mRole = mRole msg, mContent = ScrubText f (mContent msg),
                               mToolCalls = mToolCalls msg, mToolCallID = mToolCallID msg\<rparr>)
                     (Messages req),
      Tools = Tools req,
      MaxTokens = MaxTokens req,
      Temperature = Temperature req,
      Model = Model req,
      WorkingDir = []\<rparr>"

section \<open>Model router\<close>

text \<open>
  A \<^verbatim>\<open>Provider\<close> is an interface value: its name, what \<^verbatim>\<open>Available\<close> reports, and the
  outcomes of \<^verbatim>\<open>Complete\<close> and \<^verbatim>\<open>StreamComplete\<close>, which depend on the network and
  are given per request (the argument \<open>k\<close> numbers the completions of one turn). \<^verbatim>\<open>Inl\<close> carries the text of a Go
  error.
\<close>

record StreamChunk =
  scContent :: string
  scToolCalls :: "ToolCall list"
  scDone :: bool

record Provider =
  pName :: string
  pAvailable :: bool
  pComplete :: "nat \<Rightarrow> Request \<Rightarrow> string + Response"
  pStreamComplete :: "Request \<Rightarrow> StreamChunk list \<times> string option"

text \<open>\<^verbatim>\<open>config.ModelPolicy\<close> and the part of \<^verbatim>\<open>config.AIConfig\<close> that the router reads.\<close>

record ModelPolicy =
  ProjectPattern :: string
  AllowedProviders :: "string list"
  Reason :: string

record AIConfig =
  DefaultModel :: string
  Policies :: "ModelPolicy list"

record Router =
  cfg :: AIConfig
  providers :: "string \<rightharpoonup> Provider"
  firewall :: Firewall

text \<open>
  The context carries the value stored under \<^verbatim>\<open>ctxKeyProject\<close>, if any, and the state of
  its \<^verbatim>\<open>Done\<close> channel at each moment the agent loop polls it.
\<close>

datatype ctx_value = StringValue string | OtherValue

record Context =
  ctx_project :: "ctx_value option"
  ctx_done :: "nat \<Rightarrow> bool"

definition WithProject :: "Context \<Rightarrow> string \<Rightarrow> Context" where
  "WithProject ctx projectPath = ctx\<lparr>ctx_project := Some (StringValue projectPath)\<rparr>"

datatype router_error =
    UnknownProvider string
  | NoAvailableProvider
  | ProviderFailed string string
  | ProviderError string

text \<open>\<^verbatim>\<open>strings.SplitN(s, "/", 2)[0]\<close>: the part of \<open>s\<close> before its first slash.\<close>

definition provider_part :: "string \<Rightarrow> string" where
  "provider_part s = takeWhile (\<lambda>c. c \<noteq> CHR ''/'') s"

text \<open>The inner loop of \<^verbatim>\<open>resolveByPolicy\<close>, over the allowed providers of one policy.\<close>

fun first_allowed :: "(string \<rightharpoonup> Provider) \<Rightarrow> string list \<Rightarrow> Provider option" where
  "first_allowed ps [] = None"
| "first_allowed ps (allowed # rest) =
     (case ps allowed of
        Some p \<Rightarrow> if pAvailable p then Some p else first_allowed ps rest
      | None \<Rightarrow> first_allowed ps rest)"

text \<open>
  The outer loop of \<^verbatim>\<open>resolveByPolicy\<close>. \<open>pathMatch pattern name\<close> stands for the
  \<^verbatim>\<open>matched\<close> result of \<^verbatim>\<open>filepath.Match\<close>, whose error the code discards.
\<close>

fun policy_loop ::
  "(string \<Rightarrow> string \<Rightarrow> bool) \<Rightarrow> (string \<rightharpoonup> Provider) \<Rightarrow> ModelPolicy list \<Rightarrow> string
     \<Rightarrow> Provider option" where
  "policy_loop pathMatch ps [] projectPath = None"
| "policy_loop pathMatch ps (policy # rest) projectPath =
     (if pathMatch (ProjectPattern policy) projectPath
      then (case first_allowed ps (AllowedProviders policy) of
              Some p \<Rightarrow> Some p
            | None \<Rightarrow> policy_loop pathMatch ps rest projectPath)
      else policy_loop pathMatch ps rest projectPath)"

definition resolveByPolicy ::
  "(string \<Rightarrow> string \<Rightarrow> bool) \<Rightarrow> Router \<Rightarrow> string \<Rightarrow> Provider option" where
  "resolveByPolicy pathMatch r projectPath =
     policy_loop pathMatch (providers r) (Policies (cfg r)) projectPath"

text \<open>The tail of \<^verbatim>\<open>selectProvider\<close>: default model, then anthropic, then ollama.\<close>

definition select_default :: "Router \<Rightarrow> router_error + Provider" where
  "select_default r =
     (let defaultModel = DefaultModel (cfg r);
          byDefault = (if defaultModel \<noteq> [] then providers r (provider_part defaultModel)
                       else None)
      in case byDefault of
           Some p \<Rightarrow> Inr p
         | None \<Rightarrow>
             (case providers r ''anthropic'' of
                Some p \<Rightarrow>
                  if pAvailable p then Inr p
                  else (case providers r ''ollama'' of
                          Some q \<Rightarrow> Inr q | None \<Rightarrow> Inl NoAvailableProvider)
              | None \<Rightarrow>
                  (case providers r ''ollama'' of
                     Some q \<Rightarrow> Inr q | None \<Rightarrow> Inl NoAvailableProvider)))"

definition selectProvider ::
  "(string \<Rightarrow> string \<Rightarrow> bool) \<Rightarrow> Router \<Rightarrow> Context \<Rightarrow> string \<Rightarrow> router_error + Provider" where
  "selectProvider pathMatch r ctx modelOverride =
     (if modelOverride \<noteq> [] then
        (let providerName = provider_part modelOverride
         in case providers r providerName of
              Some p \<Rightarrow> Inr p
            | None \<Rightarrow> Inl (UnknownProvider providerName))
      else
        (case ctx_project ctx of
           Some (StringValue pp) \<Rightarrow>
             (case resolveByPolicy pathMatch r pp of
                Some provider \<Rightarrow> Inr provider
              | None \<Rightarrow> select_default r)
         | Some OtherValue \<Rightarrow> select_default r
         | None \<Rightarrow> select_default r))"

text \<open>\<^verbatim>\<open>Router.Complete\<close>, for the \<open>k\<close>-th completion of a turn.\<close>

definition Complete ::
  "(string \<Rightarrow> string \<Rightarrow> bool) \<Rightarrow> Router \<Rightarrow> Context \<Rightarrow> nat \<Rightarrow> Request
     \<Rightarrow> router_error + Response" where
  "Complete pathMatch r ctx k req =
     (case selectProvider pathMatch r ctx (Model req) of
        Inl err \<Rightarrow> Inl err
      | Inr provider \<Rightarrow>
          (let sanitized = ScrubRequest (firewall r) req
           in case pComplete provider k sanitized of
                Inl err \<Rightarrow> Inl (ProviderFailed (pName provider) err)
              | Inr resp \<Rightarrow> Inr resp))"

text \<open>
  \<^verbatim>\<open>Router.StreamComplete\<close>: the chunks delivered to the callback and the error
  returned; the provider's error is passed on as it is.
\<close>

definition StreamComplete ::
  "(string \<Rightarrow> string \<Rightarrow> bool) \<Rightarrow> Router \<Rightarrow> Context \<Rightarrow> Request
     \<Rightarrow> StreamChunk list \<times> router_error option" where
  "StreamComplete pathMatch r ctx req =
     (case selectProvider pathMatch r ctx (Model req) of
        Inl err \<Rightarrow> ([], Some err)
      | Inr provider \<Rightarrow>
          (let sanitized = ScrubRequest (firewall r) req
           in case pStreamComplete provider sanitized of
                (chunks, None) \<Rightarrow> (chunks, None)
              | (chunks, Some err) \<Rightarrow> (chunks, Some (ProviderError err))))"

text \<open>
  \<^verbatim>\<open>filepath.Match\<close> on patterns made of literal bytes, \<^verbatim>\<open>?\<close> and \<^verbatim>\<open>*\<close> only (neither
  matches a path separator); an instance for the parameter \<open>pathMatch\<close>.
\<close>

fun glob :: "string \<Rightarrow> string \<Rightarrow> bool" where
  "glob [] name = (name = [])"
| "glob (p # ps) [] = (p = CHR ''*'' \<and> glob ps [])"
| "glob (p # ps) (c # cs) =
     (if p = CHR ''*'' then glob ps (c # cs) \<or> (c \<noteq> CHR ''/'' \<and> glob (p # ps) cs)
      else if p = CHR ''?'' then c \<noteq> CHR ''/'' \<and> glob ps cs
      else p = c \<and> glob ps cs)"

section \<open>Agent runtime\<close>

text \<open>The types of \<^verbatim>\<open>internal/agent/runtime.go\<close>.\<close>

record ToolResult =
  Output :: string
  Error :: string
  Duration :: int
  Metadata :: "(string \<times> string) list"

record ToolInfo =
  ti_Name :: string
  ti_Description :: string
  ti_Category :: string

text \<open>
  A \<^verbatim>\<open>ToolExecutor\<close> is an interface value: \<open>Execute k name input\<close> is the outcome of the
  \<open>k\<close>-th execution of a turn, \<^verbatim>\<open>Inl\<close> carrying the text of the returned error.
\<close>

record ToolExecutor =
  Execute :: "nat \<Rightarrow> string \<Rightarrow> (string \<times> string) list \<Rightarrow> string + ToolResult"
  ListTools :: "ToolInfo list"

text \<open>Each callback is either nil or set; a call of a set callback is an observable event.\<close>

record Callbacks =
  OnThinking :: bool
  OnResponse :: bool
  OnToolCall :: bool
  OnToolResult :: bool
  OnError :: bool
  OnDone :: bool

datatype event =
    Thinking string
  | ResponseText string
  | ToolCallEvent string "(string \<times> string) list"
  | ToolResultEvent string ToolResult
  | ErrorEvent router_error
  | DoneEvent

record Runtime =
  router :: Router
  memory :: Memory
  toolExec :: "ToolExecutor option"
  callbacks :: Callbacks

text \<open>What a turn reads from outside the process: the clock and \<^verbatim>\<open>filepath.Match\<close>.\<close>

record World =
  clock :: "nat \<Rightarrow> int"
  pathMatch :: "string \<Rightarrow> string \<Rightarrow> bool"

text \<open>
  The errors \<^verbatim>\<open>ProcessMessage\<close> returns: \<^verbatim>\<open>ctx.Err()\<close>, the wrapped completion error and
  \<^verbatim>\<open>"agent loop exceeded max iterations (%d)"\<close>.
\<close>

datatype process_error =
    ContextError
  | ModelCompletionError router_error
  | MaxIterationsExceeded nat

text \<open>
  The state of one turn: the memory of the runtime, the events delivered so far, the
  numbers of completions requested, tools executed and clock readings made, and the local
  variable \<^verbatim>\<open>promptCtx\<close>.
\<close>

record run_state =
  rs_memory :: Memory
  rs_trace :: "event list"
  rs_completions :: nat
  rs_executions :: nat
  rs_clock :: nat
  rs_promptCtx :: "ModelMessage list"

definition maxIterations :: nat where
  "maxIterations = 20"

definition newline :: char where
  "newline = CHR 0x0A"

definition prompt_lines :: "string list" where
  "prompt_lines =
     [''You are GreenForge, a secure AI developer agent specialized for JVM teams.'',
      ''You help developers with Spring Boot, Kafka, Gradle/Maven projects.'',
      [],
      ''You have access to tools for:'',
      ''- Git operations (status, diff, commit, log, blame)'',
      ''- File operations (read, write, search)'',
      ''- Shell commands (sandboxed)'',
      ''- Build operations (Gradle/Maven)'',
      ''- Spring analysis (endpoints, beans, config)'',
      ''- Kafka mapping (topics, listeners, flows)'',
      ''- Database operations (query, schema, migrations)'',
      [],
      ''Guidelines:'',
      ''- Be concise and helpful'',
      ''- Use tools when needed to answer questions'',
      ''- Always explain what you'' @ [squote] @ ''re doing'',
      ''- Never expose secrets or credentials'',
      ''- Prefer reading files over guessing'']"

definition buildSystemPrompt :: "Runtime \<Rightarrow> string" where
  "buildSystemPrompt r =
     concat (map (\<lambda>l. l @ [newline]) prompt_lines) @
     (case toolExec r of
        None \<Rightarrow> []
      | Some ex \<Rightarrow>
          [newline] @ ''Available tools:'' @ [newline] @
          concat (map (\<lambda>tool. ''- '' @ ti_Name tool @ '': '' @ ti_Description tool @ [newline])
                      (ListTools ex)))"

text \<open>
  \<^verbatim>\<open>buildContext\<close>, on the memory as it stands. Copying \<^verbatim>\<open>ToolCalls\<close> only when non-empty
  and \<^verbatim>\<open>ToolCallID\<close> only when non-empty yields the same fields as copying them always.
\<close>

definition buildContext :: "Runtime \<Rightarrow> Memory \<Rightarrow> string \<Rightarrow> ModelMessage list" where
  "buildContext r mem sessionID =
     \<lparr>mRole = ''system'', mContent = buildSystemPrompt r, mToolCalls = [], mToolCallID = []\<rparr> #
     map (\<lambda>msg. \<lparr>mRole = Role msg, mContent = Content msg, mToolCalls = ToolCalls msg,
                  mToolCallID = ToolCallID msg\<rparr>)
         (Get mem sessionID)"

definition getToolDefs :: "Runtime \<Rightarrow> ToolDef list" where
  "getToolDefs r =
     (case toolExec r of
        None \<Rightarrow> []
      | Some ex \<Rightarrow>
          map (\<lambda>tool. \<lparr>td_Name = ti_Name tool, td_Description = ti_Description tool,
                        td_Schema = []\<rparr>)
              (ListTools ex))"

definition executeTool :: "Runtime \<Rightarrow> nat \<Rightarrow> ToolCall \<Rightarrow> string + ToolResult" where
  "executeTool r k tc =
     (case toolExec r of
        None \<Rightarrow> Inl ''no tool executor configured''
      | Some ex \<Rightarrow> Execute ex k (tc_Name tc) (tc_Input tc))"

text \<open>Calling a callback if it is set.\<close>

definition emit :: "bool \<Rightarrow> event \<Rightarrow> run_state \<Rightarrow> run_state" where
  "emit cb e st = (if cb then st\<lparr>rs_trace := rs_trace st @ [e]\<rparr> else st)"

text \<open>\<^verbatim>\<open>r.memory.Add(sessionID, Message{..., Timestamp: time.Now()})\<close>\<close>

definition remember :: "World \<Rightarrow> string \<Rightarrow> (int \<Rightarrow> Message) \<Rightarrow> run_state \<Rightarrow> run_state" where
  "remember w sessionID mk st =
     st\<lparr>rs_memory := Add (rs_memory st) sessionID (mk (clock w (rs_clock st))),
        rs_clock := Suc (rs_clock st)\<rparr>"

text \<open>
  The body of the inner loop of \<^verbatim>\<open>ProcessMessage\<close> for one tool call: the callbacks, the
  execution, the tool message and the rebuilt \<^verbatim>\<open>promptCtx\<close>.
\<close>

definition run_tool_call :: "Runtime \<Rightarrow> World \<Rightarrow> string \<Rightarrow> ToolCall \<Rightarrow> run_state \<Rightarrow> run_state" where
  "run_tool_call r w sessionID tc st =
     (let st1 = emit (OnToolCall (callbacks r)) (ToolCallEvent (tc_Name tc) (tc_Input tc)) st;
          outcome = executeTool r (rs_executions st1) tc;
          st2 = st1\<lparr>rs_executions := Suc (rs_executions st1)\<rparr>;
          result = (case outcome of
                      Inl err \<Rightarrow> \<lparr>Output = [], Error = err, Duration = 0, Metadata = []\<rparr>
                    | Inr res \<Rightarrow> res);
          st3 = emit (OnToolResult (callbacks r)) (ToolResultEvent (tc_Name tc) result) st2;
          content = (if Error result \<noteq> [] then ''Error: '' @ Error result else Output result);
          st4 = remember w sessionID
                  (\<lambda>now. \<lparr>Role = ''tool'', Content = content, Timestamp = now, ToolCalls = [],
                           ToolCallID = tc_ID tc, ToolName = tc_Name tc\<rparr>) st3
      in st4\<lparr>rs_promptCtx := buildContext r (rs_memory st4) sessionID\<rparr>)"

fun run_tool_calls :: "Runtime \<Rightarrow> World \<Rightarrow> string \<Rightarrow> ToolCall list \<Rightarrow> run_state \<Rightarrow> run_state" where
  "run_tool_calls r w sessionID [] st = st"
| "run_tool_calls r w sessionID (tc # tcs) st =
     run_tool_calls r w sessionID tcs (run_tool_call r w sessionID tc st)"

text \<open>
  The agent loop \<^verbatim>\<open>for i := 0; i < maxIterations; i++\<close>, entered at iteration \<open>i\<close>.
  \<open>ctx_done ctx i\<close> is the state of \<^verbatim>\<open>ctx.Done()\<close> at the poll of iteration \<open>i\<close>.
\<close>

function agent_loop ::
  "Runtime \<Rightarrow> World \<Rightarrow> Context \<Rightarrow> string \<Rightarrow> nat \<Rightarrow> run_state
     \<Rightarrow> process_error option \<times> run_state" where
  "agent_loop r w ctx sessionID i st =
     (if i < maxIterations then
        if ctx_done ctx i then (Some ContextError, st)
        else
          (let st1 = emit (OnThinking (callbacks r)) (Thinking ''Thinking...'') st;
               outcome = Complete (pathMatch w) (router r) ctx (rs_completions st1)
                           \<lparr>Messages = rs_promptCtx st1, Tools = getToolDefs r,
                            MaxTokens = 4096, Temperature = 0.1, Model = [],
                            WorkingDir = []\<rparr>;
               st2 = st1\<lparr>rs_completions := Suc (rs_completions st1)\<rparr>
           in case outcome of
                Inl err \<Rightarrow>
                  (Some (ModelCompletionError err),
                   emit (OnError (callbacks r)) (ErrorEvent err) st2)
              | Inr resp \<Rightarrow>
                  if rToolCalls resp = [] then
                    (let st3 = remember w sessionID
                                 (\<lambda>now. \<lparr>Role = ''assistant'', Content = rContent resp,
                                          Timestamp = now, ToolCalls = [], ToolCallID = [],
                                          ToolName = []\<rparr>) st2;
                         st4 = emit (OnResponse (callbacks r)) (ResponseText (rContent resp)) st3;
                         st5 = emit (OnDone (callbacks r)) DoneEvent st4
                     in (None, st5))
                  else
                    (let st3 = remember w sessionID
                                 (\<lambda>now. \<lparr>Role = ''assistant'', Content = rContent resp,
                                          Timestamp = now, ToolCalls = rToolCalls resp,
                                          ToolCallID = [], ToolName = []\<rparr>) st2;
                         st4 = run_tool_calls r w sessionID (rToolCalls resp) st3
                     in agent_loop r w ctx sessionID (i + 1) st4))
      else (Some (MaxIterationsExceeded maxIterations), st))"
  by pat_completeness auto
termination
  by (relation "measure (\<lambda>(r, w, ctx, sessionID, i, st). maxIterations - i)") auto

declare agent_loop.simps [simp del]

definition ProcessMessage ::
  "Runtime \<Rightarrow> World \<Rightarrow> Context \<Rightarrow> string \<Rightarrow> string \<Rightarrow> process_error option \<times> run_state" where
  "ProcessMessage r w ctx sessionID message =
     (let st0 = remember w sessionID
                  (\<lambda>now. \<lparr>Role = ''user'', Content = message, Timestamp = now, ToolCalls = [],
                           ToolCallID = [], ToolName = []\<rparr>)
                  \<lparr>rs_memory = memory r, rs_trace = [], rs_completions = 0,
                   rs_executions = 0, rs_clock = 0, rs_promptCtx = []\<rparr>;
          st1 = st0\<lparr>rs_promptCtx := buildContext r (rs_memory st0) sessionID\<rparr>
      in agent_loop r w ctx sessionID 0 st1)"

section \<open>Delegated credential of the Anthropic provider\<close>

text \<open>
  The credential fields of \<^verbatim>\<open>AnthropicProvider\<close> (\<^verbatim>\<open>internal/model/anthropic.go\<close>);
  \<^verbatim>\<open>expiresAt\<close> is an \<^verbatim>\<open>int64\<close>.
\<close>

record AnthropicProvider =
  accessToken :: string
  refreshToken :: string
  expiresAt :: int
  isOAuth :: bool

text \<open>The decoded body of a token response.\<close>

record tokenResp =
  AccessToken :: string
  RefreshToken :: string
  ExpiresIn :: int

text \<open>
  The outcome of \<^verbatim>\<open>p.client.Post\<close>: a transport error, or a response with its status
  code, its body and the result of decoding the body as JSON (\<open>None\<close> when decoding
  fails).
\<close>

datatype post_outcome =
    PostFailed string
  | PostReplied int string "tokenResp option"

text \<open>\<^verbatim>\<open>"OAuth refresh request: %w"\<close> and \<^verbatim>\<open>"OAuth refresh failed (%d): %s"\<close>\<close>

datatype refresh_error =
    RefreshRequestError string
  | RefreshFailed int string

text \<open>Arithmetic on \<^verbatim>\<open>int64\<close> wraps.\<close>

definition int64 :: "int \<Rightarrow> int" where
  "int64 x = sint (word_of_int x :: 64 word)"

text \<open>The normalisation of \<^verbatim>\<open>expiresAt\<close>: a value below \<^verbatim>\<open>1e12\<close> was in seconds.\<close>

definition normalize_expiry :: "int \<Rightarrow> int" where
  "normalize_expiry e = (if e > 0 \<and> e < 10 ^ 12 then int64 (e * 1000) else e)"

text \<open>
  \<^verbatim>\<open>refreshIfNeeded\<close>. \<open>now\<close> is \<^verbatim>\<open>time.Now().UnixMilli()\<close> at the expiry check, \<open>post\<close>
  the token endpoint as a function of the form data, \<open>now'\<close> the clock when the new expiry
  is computed. The result is the returned error, whether a request was sent, and the
  provider afterwards.
\<close>

definition refreshIfNeeded ::
  "AnthropicProvider \<Rightarrow> int \<Rightarrow> (string \<Rightarrow> post_outcome) \<Rightarrow> int
     \<Rightarrow> refresh_error option \<times> bool \<times> AnthropicProvider" where
  "refreshIfNeeded p now post now' =
     (if \<not> isOAuth p then (None, False, p)
      else
        (let hasToken = (accessToken p \<noteq> []);
             hasRefresh = (refreshToken p \<noteq> []);
             expires = normalize_expiry (expiresAt p)
         in if \<not> hasRefresh then (None, False, p)
            else if expires > 0 \<and> now < int64 (expires - 5 * 60 * 1000) then (None, False, p)
            else if expires = 0 \<and> hasToken then (None, False, p)
            else
              (case post (''grant_type=refresh_token&refresh_token='' @ refreshToken p) of
                 PostFailed err \<Rightarrow>
                   if accessToken p \<noteq> [] then (None, True, p)
                   else (Some (RefreshRequestError err), True, p)
               | PostReplied status body decoded \<Rightarrow>
                   if status \<noteq> 200 then
                     (if accessToken p \<noteq> [] then (None, True, p)
                      else (Some (RefreshFailed status body), True, p))
                   else
                     (case decoded of
                        None \<Rightarrow> (None, True, p)
                      | Some tr \<Rightarrow>
                          (let p1 = (if AccessToken tr \<noteq> []
                                     then p\<lparr>accessToken := AccessToken tr\<rparr> else p);
                               p2 = (if RefreshToken tr \<noteq> []
                                     then p1\<lparr>refreshToken := RefreshToken tr\<rparr> else p1);
                               p3 = (if ExpiresIn tr > 0
                                     then p2\<lparr>expiresAt :=
                                            int64 (now' + int64 (ExpiresIn tr * 1000))\<rparr>
                                     else p2)
                           in (None, True, p3))))))"

text \<open>\<^verbatim>\<open>AnthropicProvider.Available\<close>\<close>

definition Available :: "AnthropicProvider \<Rightarrow> bool" where
  "Available p = (accessToken p \<noteq> [])"

section \<open>Notions used to state the properties\<close>

subsection \<open>Tool-call groups and positions in a conversation\<close>

text \<open>The tool message \<open>t\<close> answers one of the invocations of the assistant message \<open>a\<close>.\<close>

definition answers :: "Message \<Rightarrow> Message \<Rightarrow> bool" where
  "answers a t =
     (Role a = ''assistant'' \<and> Role t = ''tool'' \<and> ToolCallID t \<in> set (map tc_ID (ToolCalls a)))"

text \<open>
  Some assistant message of \<open>before\<close> and a tool message answering it are on different
  sides of the trim that left \<open>after\<close>.
\<close>

definition group_split :: "Message list \<Rightarrow> Message list \<Rightarrow> bool" where
  "group_split before after =
     list_ex (\<lambda>a. list_ex (\<lambda>t. answers a t \<and> ((a \<in> set after) \<noteq> (t \<in> set after))) before)
       before"

text \<open>The positions of a sequence of length \<open>n\<close> that lie in its first 10 or its last 150.\<close>

definition kept_position :: "nat \<Rightarrow> nat \<Rightarrow> bool" where
  "kept_position n i = (i < 10 \<or> n - 150 \<le> i)"

text \<open>
  A session of 200 messages in which the assistant message at position 9 calls a tool and
  the message at position 10 is the tool's answer.
\<close>

definition filler :: "nat \<Rightarrow> Message" where
  "filler i = \<lparr>Role = ''user'', Content = ''hello'', Timestamp = int i, ToolCalls = [],
               ToolCallID = [], ToolName = []\<rparr>"

definition calling :: Message where
  "calling = \<lparr>Role = ''assistant'', Content = [], Timestamp = 9,
     ToolCalls = [\<lparr>tc_ID = ''call_1'', tc_Name = ''git_status'', tc_Input = []\<rparr>],
     ToolCallID = [], ToolName = []\<rparr>"

definition answering :: Message where
  "answering = \<lparr>Role = ''tool'', Content = ''clean'', Timestamp = 10, ToolCalls = [],
     ToolCallID = ''call_1'', ToolName = ''git_status''\<rparr>"

definition long_history :: "Message list" where
  "long_history = map filler [0..<9] @ [calling, answering] @ map filler [11..<200]"

definition full_memory :: Memory where
  "full_memory = NewMemory\<lparr>sessions := [''s'' \<mapsto> long_history]\<rparr>"

subsection \<open>Substrings\<close>



subsection \<open>Texts for the firewall\<close>





text \<open>A request that carries a working-directory hint.\<close>

definition hinted_request :: Request where
  "hinted_request =
     \<lparr>Messages = [\<lparr>mRole = ''user'', mContent = ''list kafka topics'', mToolCalls = [],
                    mToolCallID = []\<rparr>],
      Tools = [], MaxTokens = 4096, Temperature = 0.1, Model = [],
      WorkingDir = ''/workspace/app''\<rparr>"

subsection \<open>Provider resolution as an ordered choice\<close>

text \<open>The provider named \<open>name\<close> is registered and reports itself available.\<close>

definition usable :: "Router \<Rightarrow> string \<Rightarrow> bool" where
  "usable r name = (case providers r name of Some p \<Rightarrow> pAvailable p | None \<Rightarrow> False)"

text \<open>
  Step (2) read as: take the first rule whose pattern matches, and in it the first named
  provider that is usable.
\<close>

definition first_rule_choice ::
  "(string \<Rightarrow> string \<Rightarrow> bool) \<Rightarrow> Router \<Rightarrow> string \<Rightarrow> Provider option" where
  "first_rule_choice pm r projectPath =
     (case find (\<lambda>policy. pm (ProjectPattern policy) projectPath) (Policies (cfg r)) of
        None \<Rightarrow> None
      | Some policy \<Rightarrow>
          (case find (usable r) (AllowedProviders policy) of
             None \<Rightarrow> None
           | Some name \<Rightarrow> providers r name))"

text \<open>
  Step (2) read as: go through the names of all matching rules, in rule order and then in
  list order, and take the first that is usable.
\<close>

definition all_rules_choice ::
  "(string \<Rightarrow> string \<Rightarrow> bool) \<Rightarrow> Router \<Rightarrow> string \<Rightarrow> Provider option" where
  "all_rules_choice pm r projectPath =
     (case find (usable r)
             (concat (map AllowedProviders
                (filter (\<lambda>policy. pm (ProjectPattern policy) projectPath)
                   (Policies (cfg r))))) of
        None \<Rightarrow> None
      | Some name \<Rightarrow> providers r name)"

text \<open>The first alternative that yields a result.\<close>

fun first_of :: "'a option list \<Rightarrow> 'a option" where
  "first_of [] = None"
| "first_of (None # rest) = first_of rest"
| "first_of (Some x # rest) = Some x"

text \<open>
  The four-step order, with step (2) given by \<open>choice\<close>: (1) the override, (2) the policy
  choice when the context carries a project path, (3) the provider of the default model
  string, (4) anthropic if usable, else ollama.
\<close>

definition resolution_order ::
  "(Router \<Rightarrow> string \<Rightarrow> Provider option) \<Rightarrow> Router \<Rightarrow> Context \<Rightarrow> string
     \<Rightarrow> router_error + Provider" where
  "resolution_order choice r ctx modelOverride =
     (if modelOverride \<noteq> [] then
        (case providers r (provider_part modelOverride) of
           Some p \<Rightarrow> Inr p
         | None \<Rightarrow> Inl (UnknownProvider (provider_part modelOverride)))
      else
        (case first_of
           [case ctx_project ctx of Some (StringValue pp) \<Rightarrow> choice r pp | _ \<Rightarrow> None,
            if DefaultModel (cfg r) \<noteq> [] then providers r (provider_part (DefaultModel (cfg r)))
            else None,
            if usable r ''anthropic'' then providers r ''anthropic'' else None,
            providers r ''ollama''] of
           Some p \<Rightarrow> Inr p
         | None \<Rightarrow> Inl NoAvailableProvider))"

text \<open>Providers that answer every request with the reply \<open>reply k\<close>.\<close>

definition stub_provider :: "string \<Rightarrow> bool \<Rightarrow> (nat \<Rightarrow> Response) \<Rightarrow> Provider" where
  "stub_provider name avail reply =
     \<lparr>pName = name, pAvailable = avail, pComplete = (\<lambda>k req. Inr (reply k)),
      pStreamComplete = (\<lambda>req. ([], None))\<rparr>"

definition final_reply :: "nat \<Rightarrow> Response" where
  "final_reply k = \<lparr>rContent = ''done'', rToolCalls = [], rModel = ''m'',
     rUsage = \<lparr>InputTokens = 0, OutputTokens = 0\<rparr>, rFinishReason = ''stop''\<rparr>"

definition git_status_call :: ToolCall where
  "git_status_call = \<lparr>tc_ID = ''call_1'', tc_Name = ''git_status'', tc_Input = []\<rparr>"

definition tool_reply :: "nat \<Rightarrow> Response" where
  "tool_reply k = \<lparr>rContent = [], rToolCalls = [git_status_call], rModel = ''m'',
     rUsage = \<lparr>InputTokens = 0, OutputTokens = 0\<rparr>, rFinishReason = ''tool_use''\<rparr>"


text \<open>
  Two rules match \<^verbatim>\<open>/company/app\<close>; the first names only an unregistered provider. The
  default model is \<^verbatim>\<open>openai/gpt-4o\<close>.
\<close>

definition two_rule_router :: Router where
  "two_rule_router =
     \<lparr>cfg = \<lparr>DefaultModel = ''openai/gpt-4o'',
              Policies = [\<lparr>ProjectPattern = ''/company/*'', AllowedProviders = [''cloud''],
                           Reason = ''confidential''\<rparr>,
                          \<lparr>ProjectPattern = ''/company/*'', AllowedProviders = [''local''],
                           Reason = ''fallback''\<rparr>]\<rparr>,
      providers = [''local'' \<mapsto> stub_provider ''local'' True final_reply,
                   ''openai'' \<mapsto> stub_provider ''openai'' True final_reply],
      firewall = NewFirewall\<rparr>"

text \<open>The policy scenario: one rule, \<^verbatim>\<open>local\<close> and \<^verbatim>\<open>cloud\<close> registered and available.\<close>

definition company_router :: Router where
  "company_router =
     \<lparr>cfg = \<lparr>DefaultModel = ''cloud/large'',
              Policies = [\<lparr>ProjectPattern = ''/company/*'', AllowedProviders = [''local''],
                           Reason = ''confidential''\<rparr>]\<rparr>,
      providers = [''local'' \<mapsto> stub_provider ''local'' True final_reply,
                   ''cloud'' \<mapsto> stub_provider ''cloud'' True final_reply],
      firewall = NewFirewall\<rparr>"

definition company_ctx :: Context where
  "company_ctx = \<lparr>ctx_project = Some (StringValue ''/company/app''), ctx_done = (\<lambda>i. False)\<rparr>"

subsection \<open>Runtimes for the agent loop\<close>

definition ollama_router :: "(nat \<Rightarrow> Response) \<Rightarrow> Router" where
  "ollama_router reply =
     \<lparr>cfg = \<lparr>DefaultModel = ''ollama/codestral'', Policies = []\<rparr>,
      providers = [''ollama'' \<mapsto> stub_provider ''ollama'' True reply],
      firewall = NewFirewall\<rparr>"

definition all_callbacks :: Callbacks where
  "all_callbacks = \<lparr>OnThinking = True, OnResponse = True, OnToolCall = True,
     OnToolResult = True, OnError = True, OnDone = True\<rparr>"


definition stub_runtime :: "(nat \<Rightarrow> Response) \<Rightarrow> ToolExecutor option \<Rightarrow> Runtime" where
  "stub_runtime reply ex =
     \<lparr>router = ollama_router reply, memory = NewMemory, toolExec = ex,
      callbacks = all_callbacks\<rparr>"

definition plain_world :: World where
  "plain_world = \<lparr>clock = (\<lambda>k. int k), pathMatch = glob\<rparr>"

definition background_ctx :: Context where
  "background_ctx = \<lparr>ctx_project = None, ctx_done = (\<lambda>i. False)\<rparr>"

definition cancelled_ctx :: Context where
  "cancelled_ctx = \<lparr>ctx_project = None, ctx_done = (\<lambda>i. True)\<rparr>"


text \<open>Events that end a turn for the observer.\<close>

fun is_terminal :: "event \<Rightarrow> bool" where
  "is_terminal (ResponseText t) = True"
| "is_terminal (ErrorEvent e) = True"
| "is_terminal DoneEvent = True"
| "is_terminal e = False"

subsection \<open>Credential refresh\<close>

text \<open>The access token is still good for more than five minutes at time \<open>now\<close>.\<close>

definition still_valid :: "AnthropicProvider \<Rightarrow> int \<Rightarrow> bool" where
  "still_valid p now =
     (normalize_expiry (expiresAt p) > 0 \<and>
      now < int64 (normalize_expiry (expiresAt p) - 5 * 60 * 1000))"

text \<open>The exchange failed at the transport or with a status other than 200.\<close>

fun exchange_failed :: "post_outcome \<Rightarrow> bool" where
  "exchange_failed (PostFailed err) = True"
| "exchange_failed (PostReplied status body decoded) = (status \<noteq> 200)"

definition refresh_form :: "AnthropicProvider \<Rightarrow> string" where
  "refresh_form p = ''grant_type=refresh_token&refresh_token='' @ refreshToken p"

text \<open>A provider with no credential at all, one with a stale token, and two endpoints.\<close>

definition empty_credential :: AnthropicProvider where
  "empty_credential = \<lparr>accessToken = [], refreshToken = [], expiresAt = 0, isOAuth = True\<rparr>"

definition stale_credential :: AnthropicProvider where
  "stale_credential =
     \<lparr>accessToken = ''old-token'', refreshToken = ''refresh-1'', expiresAt = 1000,
      isOAuth = True\<rparr>"

definition lost_credential :: AnthropicProvider where
  "lost_credential =
     \<lparr>accessToken = [], refreshToken = ''refresh-1'', expiresAt = 1000, isOAuth = True\<rparr>"

definition endpoint_down :: "string \<Rightarrow> post_outcome" where
  "endpoint_down form = PostFailed ''connection refused''"

section \<open>Conversation memory: retention\<close>

lemma Get_Add_same:
  "Get (Add m sid msg) sid =
     (let history = Get m sid @ [msg]
      in if int (length history) > maxSize m
         then take 10 history @ drop (length history - 150) history else history)"
  by (simp add: Get_def Add_def lookup_session_def Let_def)

lemma Get_Add_other: "sid' \<noteq> sid \<Longrightarrow> Get (Add m sid msg) sid' = Get m sid'"
  by (simp add: Get_def Add_def lookup_session_def Let_def)

lemma maxSize_Add: "maxSize (Add m sid msg) = maxSize m"
  by (simp add: Add_def Let_def)

lemma Get_NewMemory: "Get NewMemory sid = []"
  by (simp add: Get_def NewMemory_def lookup_session_def)

lemma Get_foldl_Add:
  assumes "maxSize m = 200" and "length (Get m sid) + length xs \<le> 200"
  shows "Get (foldl (\<lambda>m x. Add m sid x) m xs) sid = Get m sid @ xs"
  using assms
proof (induction xs arbitrary: m)
  case Nil
  then show ?case by simp
next
  case (Cons x xs)
  have step: "Get (Add m sid x) sid = Get m sid @ [x]"
    using Cons.prems by (simp add: Get_Add_same Let_def)
  have "Get (foldl (\<lambda>m x. Add m sid x) (Add m sid x) xs) sid = Get (Add m sid x) sid @ xs"
    using Cons.prems by (intro Cons.IH) (simp_all add: maxSize_Add step)
  then show ?case by (simp add: step)
qed

lemma keep_ends:
  assumes "k \<le> n - l" "l \<le> n" "n = length h"
  shows "take k h @ drop (n - l) h = map ((!) h) (filter (\<lambda>i. i < k \<or> n - l \<le> i) [0..<n])"
proof -
  have s1: "[0..<n] = [0..<k] @ [k..<n]"
    using assms by (metis le_trans upt_add_eq_append le_add_diff_inverse zero_le diff_le_self add_0)
  have s2: "[k..<n] = [k..<n - l] @ [n - l..<n]"
    using assms by (metis upt_add_eq_append le_add_diff_inverse diff_le_self)
  have a: "filter (\<lambda>i. i < k \<or> n - l \<le> i) [0..<k] = [0..<k]"
    by (rule filter_True) simp
  have b: "filter (\<lambda>i. i < k \<or> n - l \<le> i) [k..<n - l] = []"
    by (rule filter_False) auto
  have c: "filter (\<lambda>i. i < k \<or> n - l \<le> i) [n - l..<n] = [n - l..<n]"
    by (rule filter_True) simp
  have "take k h = take k (map ((!) h) [0..<length h])"
    by (simp add: map_nth)
  also have "\<dots> = map ((!) h) [0..<k]"
    using assms unfolding take_map by (simp add: take_upt)
  finally have t: "take k h = map ((!) h) [0..<k]" .
  have "drop (n - l) h = drop (n - l) (map ((!) h) [0..<length h])"
    by (simp add: map_nth)
  also have "\<dots> = map ((!) h) [n - l..<n]"
    using assms unfolding drop_map by (simp add: drop_upt)
  finally have d: "drop (n - l) h = map ((!) h) [n - l..<n]" .
  show ?thesis
    by (subst s1, subst s2) (simp only: filter_append a b c map_append t d append_Nil)
qed

lemma Get_full_memory: "Get full_memory ''s'' = long_history"
  by (simp add: Get_def lookup_session_def full_memory_def)

lemma maxSize_full_memory: "maxSize full_memory = 200"
  by (simp add: full_memory_def NewMemory_def)

lemma length_long_history: "length long_history = 200"
  by (simp add: long_history_def)

lemma trimmed_full_memory:
  "Get (Add full_memory ''s'' (filler 200)) ''s'' =
     map filler [0..<9] @ [calling] @ map filler [51..<200] @ [filler 200]"
proof -
  have "Get (Add full_memory ''s'' (filler 200)) ''s'' =
          take 10 (long_history @ [filler 200]) @ drop 51 (long_history @ [filler 200])"
    by (simp add: Get_Add_same Get_full_memory maxSize_full_memory length_long_history)
  also have "take 10 (long_history @ [filler 200]) = map filler [0..<9] @ [calling]"
    by (simp add: long_history_def del: upt_Suc upt_rec_numeral)
  also have "drop 51 (long_history @ [filler 200]) = map filler [51..<200] @ [filler 200]"
    by (simp add: long_history_def drop_map del: upt_Suc upt_rec_numeral)
  finally show ?thesis by simp
qed

text \<open>
  C1, as stated, fails. In the session \<open>long_history\<close> the assistant message at position 9
  calls a tool and the tool message at position 10 answers it; the 201st message makes
  \<^verbatim>\<open>Add\<close> trim, which keeps position 9 and drops position 10.
\<close>

theorem Add_trim_splits_group:
  "int (length (Get full_memory ''s'' @ [filler 200])) > maxSize full_memory \<and>
   group_split (Get full_memory ''s'' @ [filler 200])
     (Get (Add full_memory ''s'' (filler 200)) ''s'')"
proof -
  let ?before = "Get full_memory ''s'' @ [filler 200]"
  let ?after = "Get (Add full_memory ''s'' (filler 200)) ''s''"
  have ans: "answers calling answering"
    by (simp add: answers_def calling_def answering_def)
  have cb: "calling \<in> set ?before" and ab: "answering \<in> set ?before"
    by (simp_all add: Get_full_memory long_history_def del: upt_Suc upt_rec_numeral)
  have ca: "calling \<in> set ?after"
    by (simp add: trimmed_full_memory del: upt_Suc upt_rec_numeral)
  have neq: "answering \<noteq> filler i" for i
    by (simp add: answering_def filler_def)
  have neq2: "answering \<noteq> calling"
    by (simp add: answering_def calling_def)
  have aa: "answering \<notin> set ?after"
    using neq neq2 by (auto simp add: trimmed_full_memory simp del: upt_Suc upt_rec_numeral)
  have "group_split ?before ?after"
    unfolding group_split_def list_ex_iff using ans cb ab ca aa by blast
  moreover have "int (length ?before) > maxSize full_memory"
    by (simp add: Get_full_memory maxSize_full_memory length_long_history)
  ultimately show ?thesis by simp
qed

text \<open>
  C1, amended. When \<^verbatim>\<open>Add\<close> trims, what is retained is decided by position alone: of the
  appended sequence of length \<open>n\<close>, exactly the positions below 10 and from \<open>n - 150\<close> on
  are kept, in their order, whatever the roles and correlation ids of the messages. A
  tool-call group is therefore kept or dropped as a whole exactly when its positions
  agree on \<open>kept_position\<close>.
\<close>

theorem Add_trim_by_position:
  assumes "maxSize m = 200" and "int (length (Get m sid @ [msg])) > maxSize m"
  shows "Get (Add m sid msg) sid =
     map ((!) (Get m sid @ [msg]))
       (filter (kept_position (length (Get m sid @ [msg]))) [0..<length (Get m sid @ [msg])])"
proof -
  let ?h = "Get m sid @ [msg]"
  have n: "200 < length ?h" using assms by simp
  have "Get (Add m sid msg) sid = take 10 ?h @ drop (length ?h - 150) ?h"
    using assms by (simp add: Get_Add_same Let_def)
  also have "\<dots> = map ((!) ?h) (filter (\<lambda>i. i < 10 \<or> length ?h - 150 \<le> i) [0..<length ?h])"
    by (rule keep_ends) (use n in simp_all)
  finally show ?thesis
    by (simp add: kept_position_def[abs_def])
qed

theorem Add_trim_by_position_witness:
  "maxSize full_memory = 200 \<and>
   int (length (Get full_memory ''s'' @ [filler 200])) > maxSize full_memory \<and>
   Get (Add full_memory ''s'' (filler 200)) ''s'' =
     map ((!) (Get full_memory ''s'' @ [filler 200]))
       (filter (kept_position (length (Get full_memory ''s'' @ [filler 200])))
          [0..<length (Get full_memory ''s'' @ [filler 200])])"
proof -
  have a: "maxSize full_memory = 200"
    by (rule maxSize_full_memory)
  have b: "int (length (Get full_memory ''s'' @ [filler 200])) > maxSize full_memory"
    by (simp add: Get_full_memory maxSize_full_memory length_long_history)
  show ?thesis
    using a b Add_trim_by_position [OF a b] by blast
qed

text \<open>
  C7. \<^verbatim>\<open>Get\<close> returns the messages in the order \<^verbatim>\<open>Add\<close> appended them. \<^verbatim>\<open>Add\<close> trims only
  when the appended sequence is longer than 200; the stored sequence is then its first 10
  messages followed by its last 150, which is the appended sequence with one non-empty
  contiguous segment taken out of its middle. Other sessions are not touched.
\<close>

theorem Add_retention:
  assumes "maxSize m = 200"
  shows "(length (Get m sid @ [msg]) \<le> 200 \<longrightarrow> Get (Add m sid msg) sid = Get m sid @ [msg]) \<and>
         (length (Get m sid @ [msg]) > 200 \<longrightarrow>
            Get (Add m sid msg) sid =
              take 10 (Get m sid @ [msg]) @ rev (take 150 (rev (Get m sid @ [msg]))) \<and>
            length (Get (Add m sid msg) sid) = 160 \<and>
            (\<exists>middle. middle \<noteq> [] \<and>
               Get m sid @ [msg] =
                 take 10 (Get m sid @ [msg]) @ middle @ rev (take 150 (rev (Get m sid @ [msg]))))) \<and>
         (sid' \<noteq> sid \<longrightarrow> Get (Add m sid msg) sid' = Get m sid') \<and>
         (length xs \<le> 200 \<longrightarrow> Get (foldl (\<lambda>m x. Add m sid x) NewMemory xs) sid = xs)"
proof (intro conjI impI)
  let ?h = "Get m sid @ [msg]"
  have last150: "rev (take 150 (rev ?h)) = drop (length ?h - 150) ?h"
    by (simp add: take_rev)
  show "Get (Add m sid msg) sid = ?h" if "length ?h \<le> 200"
    using that assms by (simp add: Get_Add_same Let_def)
  show trimmed: "Get (Add m sid msg) sid = take 10 ?h @ rev (take 150 (rev ?h))"
    if "200 < length ?h"
    using that assms unfolding last150 by (simp add: Get_Add_same Let_def)
  show "length (Get (Add m sid msg) sid) = 160" if "200 < length ?h"
    using that assms by (simp add: Get_Add_same Let_def)
  show "\<exists>middle. middle \<noteq> [] \<and> ?h = take 10 ?h @ middle @ rev (take 150 (rev ?h))"
    if long: "200 < length ?h"
  proof (intro exI conjI)
    let ?middle = "take (length ?h - 160) (drop 10 ?h)"
    show "?middle \<noteq> []" using long by simp
    have "drop 10 ?h = ?middle @ drop (length ?h - 160) (drop 10 ?h)"
      by (simp only: append_take_drop_id)
    moreover have "drop (length ?h - 160) (drop 10 ?h) = drop (length ?h - 150) ?h"
      using long by (simp add: add.commute)
    ultimately have "?h = take 10 ?h @ ?middle @ drop (length ?h - 150) ?h"
      by (metis append_take_drop_id)
    then show "?h = take 10 ?h @ ?middle @ rev (take 150 (rev ?h))"
      unfolding last150 .
  qed
  show "Get (Add m sid msg) sid' = Get m sid'" if "sid' \<noteq> sid"
    using that by (rule Get_Add_other)
  show "Get (foldl (\<lambda>m x. Add m sid x) NewMemory xs) sid = xs" if "length xs \<le> 200"
  proof -
    have "maxSize NewMemory = 200"
      by (simp add: NewMemory_def)
    from Get_foldl_Add [OF this, of sid xs] that show ?thesis
      by (simp add: Get_NewMemory)
  qed
qed

theorem Add_retention_witness:
  "maxSize full_memory = 200 \<and>
   length (Get full_memory ''s'' @ [filler 200]) > 200 \<and>
   Get (Add full_memory ''s'' (filler 200)) ''s'' =
     take 10 (Get full_memory ''s'' @ [filler 200]) @
     rev (take 150 (rev (Get full_memory ''s'' @ [filler 200]))) \<and>
   length (Get (Add full_memory ''s'' (filler 200)) ''s'') = 160 \<and>
   length (Get NewMemory ''s'' @ [calling]) \<le> 200 \<and>
   Get (Add NewMemory ''s'' calling) ''s'' = Get NewMemory ''s'' @ [calling] \<and>
   ''t'' \<noteq> ''s'' \<and>
   Get (Add full_memory ''s'' (filler 200)) ''t'' = Get full_memory ''t'' \<and>
   length [calling, answering] \<le> 200 \<and>
   Get (foldl (\<lambda>m x. Add m ''s'' x) NewMemory [calling, answering]) ''s'' = [calling, answering]"
proof -
  have a: "maxSize full_memory = 200"
    by (rule maxSize_full_memory)
  have b: "maxSize NewMemory = 200"
    by (simp add: NewMemory_def)
  have c: "length (Get full_memory ''s'' @ [filler 200]) > 200"
    by (simp add: Get_full_memory length_long_history)
  have d: "length (Get NewMemory ''s'' @ [calling]) \<le> 200"
    by (simp add: Get_NewMemory)
  have e: "''t'' \<noteq> ''s''" "length [calling, answering] \<le> 200"
    by simp_all
  show ?thesis
    using a c d e
      Add_retention [OF a, of "''s''" "filler 200" "''t''" "[calling, answering]"]
      Add_retention [OF b, of "''s''" calling "''t''" "[]"]
    by blast
qed


section \<open>Firewall: the outbound copy of a request\<close>

lemma ScrubRequest_WorkingDir_irrelevant: "ScrubRequest f (req\<lparr>WorkingDir := wd\<rparr>) = ScrubRequest f req"
  by (simp add: ScrubRequest_def)

text \<open>
  C10. \<^verbatim>\<open>ScrubRequest\<close> returns a request whose \<^verbatim>\<open>WorkingDir\<close> is empty whatever the input's
  was; \<^verbatim>\<open>Tools\<close>, \<^verbatim>\<open>MaxTokens\<close>, \<^verbatim>\<open>Temperature\<close> and \<^verbatim>\<open>Model\<close> are copied, and the messages
  keep role, tool calls and correlation id with their content scrubbed. What
  \<^verbatim>\<open>Router.Complete\<close> and \<^verbatim>\<open>Router.StreamComplete\<close> obtain from the provider is hence the
  same for every working-directory hint of the caller.
\<close>

theorem ScrubRequest_drops_WorkingDir:
  "WorkingDir (ScrubRequest f req) = [] \<and>
   Tools (ScrubRequest f req) = Tools req \<and>
   MaxTokens (ScrubRequest f req) = MaxTokens req \<and>
   Temperature (ScrubRequest f req) = Temperature req \<and>
   Model (ScrubRequest f req) = Model req \<and>
   map mRole (Messages (ScrubRequest f req)) = map mRole (Messages req) \<and>
   map mToolCalls (Messages (ScrubRequest f req)) = map mToolCalls (Messages req) \<and>
   map mToolCallID (Messages (ScrubRequest f req)) = map mToolCallID (Messages req) \<and>
   map mContent (Messages (ScrubRequest f req)) = map (ScrubText f \<circ> mContent) (Messages req) \<and>
   Complete pm r ctx k (req\<lparr>WorkingDir := wd\<rparr>) = Complete pm r ctx k (req\<lparr>WorkingDir := []\<rparr>) \<and>
   StreamComplete pm r ctx (req\<lparr>WorkingDir := wd\<rparr>) =
     StreamComplete pm r ctx (req\<lparr>WorkingDir := []\<rparr>)"
proof -
  have fields: "WorkingDir (ScrubRequest f req) = [] \<and>
   Tools (ScrubRequest f req) = Tools req \<and>
   MaxTokens (ScrubRequest f req) = MaxTokens req \<and>
   Temperature (ScrubRequest f req) = Temperature req \<and>
   Model (ScrubRequest f req) = Model req"
    by (simp add: ScrubRequest_def)
  have msgs: "map mRole (Messages (ScrubRequest f req)) = map mRole (Messages req) \<and>
   map mToolCalls (Messages (ScrubRequest f req)) = map mToolCalls (Messages req) \<and>
   map mToolCallID (Messages (ScrubRequest f req)) = map mToolCallID (Messages req) \<and>
   map mContent (Messages (ScrubRequest f req)) = map (ScrubText f \<circ> mContent) (Messages req)"
    by (simp add: ScrubRequest_def comp_def)
  have same: "ScrubRequest (firewall r) (req\<lparr>WorkingDir := wd\<rparr>) =
      ScrubRequest (firewall r) (req\<lparr>WorkingDir := []\<rparr>)"
    by (simp add: ScrubRequest_WorkingDir_irrelevant)
  have complete: "Complete pm r ctx k (req\<lparr>WorkingDir := wd\<rparr>) =
      Complete pm r ctx k (req\<lparr>WorkingDir := []\<rparr>)"
    unfolding Complete_def same by simp
  have stream: "StreamComplete pm r ctx (req\<lparr>WorkingDir := wd\<rparr>) =
      StreamComplete pm r ctx (req\<lparr>WorkingDir := []\<rparr>)"
    unfolding StreamComplete_def same by simp
  show ?thesis
    using fields msgs complete stream by blast
qed

theorem ScrubRequest_drops_WorkingDir_witness:
  "WorkingDir hinted_request = ''/workspace/app'' \<and>
   WorkingDir (ScrubRequest NewFirewall hinted_request) = [] \<and>
   Model (ScrubRequest NewFirewall hinted_request) = Model hinted_request \<and>
   Complete glob company_router company_ctx 0 (hinted_request\<lparr>WorkingDir := ''/workspace/app''\<rparr>) =
     Complete glob company_router company_ctx 0 (hinted_request\<lparr>WorkingDir := []\<rparr>)"
proof -
  have "WorkingDir hinted_request = ''/workspace/app''"
    by (simp add: hinted_request_def)
  then show ?thesis
    using ScrubRequest_drops_WorkingDir
      [of NewFirewall hinted_request glob company_router company_ctx 0 "''/workspace/app''"]
    by blast
qed

section \<open>Router: provider resolution\<close>

lemma first_allowed_find:
  "first_allowed (providers r) names =
     (case find (usable r) names of None \<Rightarrow> None | Some name \<Rightarrow> providers r name)"
  by (induction names) (auto simp add: usable_def split: option.splits)

lemma find_append_case:
  "find P (xs @ ys) = (case find P xs of None \<Rightarrow> find P ys | Some x \<Rightarrow> Some x)"
  by (induction xs) simp_all

lemma policy_loop_all_rules:
  "policy_loop pm (providers r) policies pp =
     (case find (usable r)
             (concat (map AllowedProviders
                (filter (\<lambda>policy. pm (ProjectPattern policy) pp) policies))) of
        None \<Rightarrow> None
      | Some name \<Rightarrow> providers r name)"
proof (induction policies)
  case Nil
  then show ?case by simp
next
  case (Cons policy rest)
  show ?case
  proof (cases "pm (ProjectPattern policy) pp")
    case False
    with Cons show ?thesis by simp
  next
    case True
    show ?thesis
    proof (cases "find (usable r) (AllowedProviders policy)")
      case None
      with True Cons show ?thesis
        by (simp add: first_allowed_find find_append_case)
    next
      case (Some name)
      then have "usable r name"
        by (auto simp add: find_Some_iff)
      then obtain p where "providers r name = Some p"
        by (auto simp add: usable_def split: option.splits)
      with True Some show ?thesis
        by (simp add: first_allowed_find find_append_case)
    qed
  qed
qed

lemma resolveByPolicy_all_rules: "resolveByPolicy pm r pp = all_rules_choice pm r pp"
  by (simp add: resolveByPolicy_def all_rules_choice_def policy_loop_all_rules)

lemma select_default_first_of:
  "select_default r =
     (case first_of
        [if DefaultModel (cfg r) \<noteq> [] then providers r (provider_part (DefaultModel (cfg r)))
         else None,
         if usable r ''anthropic'' then providers r ''anthropic'' else None,
         providers r ''ollama''] of
        Some p \<Rightarrow> Inr p
      | None \<Rightarrow> Inl NoAvailableProvider)"
  by (auto simp add: select_default_def usable_def Let_def split: option.splits)

lemma first_of_None_Cons: "first_of (None # rest) = first_of rest"
  by simp

text \<open>
  C5, as stated, fails at step (2). In \<open>two_rule_router\<close> both rules match
  \<^verbatim>\<open>/company/app\<close>; the first names only the unregistered \<^verbatim>\<open>cloud\<close>, the second names
  \<^verbatim>\<open>local\<close>. The first matching rule offers no usable provider, so the stated order goes
  on to the default model \<^verbatim>\<open>openai/gpt-4o\<close>; the code goes on to the second rule and
  returns \<^verbatim>\<open>local\<close>.
\<close>

theorem selectProvider_passes_first_rule:
  "selectProvider glob two_rule_router company_ctx [] = Inr (stub_provider ''local'' True final_reply) \<and>
   resolution_order (first_rule_choice glob) two_rule_router company_ctx [] =
     Inr (stub_provider ''openai'' True final_reply) \<and>
   pName (stub_provider ''local'' True final_reply) \<noteq> pName (stub_provider ''openai'' True final_reply)"
  by (simp add: selectProvider_def resolveByPolicy_def resolution_order_def first_rule_choice_def
      two_rule_router_def company_ctx_def usable_def provider_part_def stub_provider_def)

text \<open>
  C5, amended. Resolution follows the four steps in order: (1) a non-empty override
  resolves to the provider named before its first slash, or fails with an error when
  that provider is unregistered; (2) otherwise, if the context carries a project path,
  the names allowed by all rules whose pattern matches are gone through in rule order and
  then in list order, and the first that is registered and available is returned (a
  matching rule without such a provider does not end the search); (3) otherwise the
  provider named by a non-empty default model string, if registered; (4) otherwise
  anthropic if registered and available, else ollama if registered, else an error. In
  particular the rule \<^verbatim>\<open>/company/*\<close> allowing \<^verbatim>\<open>local\<close> resolves project
  \<^verbatim>\<open>/company/app\<close> to \<^verbatim>\<open>local\<close> when that is registered and available.
\<close>

theorem selectProvider_order:
  "selectProvider pm r ctx modelOverride =
     resolution_order (all_rules_choice pm) r ctx modelOverride \<and>
   (pm ''/company/*'' ''/company/app'' \<and>
    ctx_project ctx = Some (StringValue ''/company/app'') \<and>
    Policies (cfg r) =
      [\<lparr>ProjectPattern = ''/company/*'', AllowedProviders = [''local''], Reason = why\<rparr>] \<and>
    providers r ''local'' = Some p \<and> pAvailable p
    \<longrightarrow> selectProvider pm r ctx [] = Inr p)"
proof
  show "selectProvider pm r ctx modelOverride =
          resolution_order (all_rules_choice pm) r ctx modelOverride"
  proof (cases "modelOverride = []")
    case False
    then show ?thesis
      by (simp add: selectProvider_def resolution_order_def Let_def)
  next
    case True
    show ?thesis
    proof (cases "ctx_project ctx")
      case None
      with True show ?thesis
        unfolding selectProvider_def resolution_order_def select_default_first_of
        by simp
    next
      case (Some v)
      show ?thesis
      proof (cases v)
        case OtherValue
        with True Some show ?thesis
          unfolding selectProvider_def resolution_order_def select_default_first_of
          by simp
      next
        case (StringValue pp)
        show ?thesis
        proof (cases "all_rules_choice pm r pp")
          case None
          with True Some StringValue show ?thesis
            unfolding selectProvider_def resolution_order_def select_default_first_of
            by (simp add: resolveByPolicy_all_rules)
        next
          case (Some q)
          with True \<open>ctx_project ctx = Some v\<close> StringValue show ?thesis
            unfolding selectProvider_def resolution_order_def
            by (simp add: resolveByPolicy_all_rules)
        qed
      qed
    qed
  qed
  show "pm ''/company/*'' ''/company/app'' \<and>
    ctx_project ctx = Some (StringValue ''/company/app'') \<and>
    Policies (cfg r) =
      [\<lparr>ProjectPattern = ''/company/*'', AllowedProviders = [''local''], Reason = why\<rparr>] \<and>
    providers r ''local'' = Some p \<and> pAvailable p
    \<longrightarrow> selectProvider pm r ctx [] = Inr p"
    by (simp add: selectProvider_def resolveByPolicy_def)
qed

theorem selectProvider_order_witness:
  "glob ''/company/*'' ''/company/app'' \<and>
   ctx_project company_ctx = Some (StringValue ''/company/app'') \<and>
   Policies (cfg company_router) =
     [\<lparr>ProjectPattern = ''/company/*'', AllowedProviders = [''local''],
       Reason = ''confidential''\<rparr>] \<and>
   providers company_router ''local'' = Some (stub_provider ''local'' True final_reply) \<and>
   providers company_router ''cloud'' = Some (stub_provider ''cloud'' True final_reply) \<and>
   pAvailable (stub_provider ''local'' True final_reply) \<and>
   pAvailable (stub_provider ''cloud'' True final_reply) \<and>
   selectProvider glob company_router company_ctx [] =
     Inr (stub_provider ''local'' True final_reply) \<and>
   selectProvider glob company_router company_ctx [] =
     resolution_order (all_rules_choice glob) company_router company_ctx []"
proof -
  have a: "glob ''/company/*'' ''/company/app''"
    by simp
  have b: "ctx_project company_ctx = Some (StringValue ''/company/app'')"
    by (simp add: company_ctx_def)
  have c: "Policies (cfg company_router) =
     [\<lparr>ProjectPattern = ''/company/*'', AllowedProviders = [''local''],
       Reason = ''confidential''\<rparr>]"
    by (simp add: company_router_def)
  have d: "providers company_router ''local'' = Some (stub_provider ''local'' True final_reply)"
    "providers company_router ''cloud'' = Some (stub_provider ''cloud'' True final_reply)"
    by (simp_all add: company_router_def)
  have e: "pAvailable (stub_provider ''local'' True final_reply)"
    "pAvailable (stub_provider ''cloud'' True final_reply)"
    by (simp_all add: stub_provider_def)
  show ?thesis
    using a b c d e
      selectProvider_order [of glob company_router company_ctx "[]" "''confidential''"
        "stub_provider ''local'' True final_reply"]
    by blast
qed

section \<open>Delegated credential: refresh\<close>

text \<open>
  C3, as stated, fails in its second half. With neither an access token nor a refresh
  token the exchange cannot be performed and no credential is present, yet
  \<^verbatim>\<open>refreshIfNeeded\<close> returns nil, without sending a request.
\<close>

theorem refreshIfNeeded_no_credential_succeeds:
  "isOAuth empty_credential \<and> accessToken empty_credential = [] \<and>
   refreshToken empty_credential = [] \<and>
   refreshIfNeeded empty_credential 0 endpoint_down 0 = (None, False, empty_credential)"
  by (simp add: refreshIfNeeded_def empty_credential_def)

text \<open>
  C3, amended. \<^verbatim>\<open>refreshIfNeeded\<close> returns nil whenever a cached access token is present,
  so in particular when the refresh exchange fails (degraded continue). It returns an
  error exactly when the provider uses a delegated credential, no access token is cached,
  a refresh token is present, the token is not still valid for more than five minutes,
  and the exchange that is then attempted fails at the transport or with a status other
  than 200. Without a refresh token it returns nil and attempts no exchange, whether or
  not an access token is present.
\<close>

theorem refreshIfNeeded_errors:
  "(accessToken p \<noteq> [] \<longrightarrow> fst (refreshIfNeeded p now post now') = None) \<and>
   (fst (refreshIfNeeded p now post now') \<noteq> None \<longleftrightarrow>
      isOAuth p \<and> accessToken p = [] \<and> refreshToken p \<noteq> [] \<and> \<not> still_valid p now \<and>
      exchange_failed (post (refresh_form p))) \<and>
   (refreshToken p = [] \<longrightarrow> refreshIfNeeded p now post now' = (None, False, p))"
proof (intro conjI impI)
  show "fst (refreshIfNeeded p now post now') = None" if "accessToken p \<noteq> []"
    using that
    by (simp add: refreshIfNeeded_def Let_def split: post_outcome.splits option.splits)
  show "fst (refreshIfNeeded p now post now') \<noteq> None \<longleftrightarrow>
      isOAuth p \<and> accessToken p = [] \<and> refreshToken p \<noteq> [] \<and> \<not> still_valid p now \<and>
      exchange_failed (post (refresh_form p))"
    by (cases "post (refresh_form p)")
       (auto simp add: refreshIfNeeded_def Let_def still_valid_def refresh_form_def
          split: option.splits)
  show "refreshIfNeeded p now post now' = (None, False, p)" if "refreshToken p = []"
    using that by (simp add: refreshIfNeeded_def Let_def)
qed

theorem refreshIfNeeded_errors_witness:
  "accessToken stale_credential \<noteq> [] \<and>
   exchange_failed (endpoint_down (refresh_form stale_credential)) \<and>
   fst (refreshIfNeeded stale_credential 2000000 endpoint_down 2000000) = None \<and>
   isOAuth lost_credential \<and> accessToken lost_credential = [] \<and>
   refreshToken lost_credential \<noteq> [] \<and> \<not> still_valid lost_credential 2000000 \<and>
   exchange_failed (endpoint_down (refresh_form lost_credential)) \<and>
   fst (refreshIfNeeded lost_credential 2000000 endpoint_down 2000000) \<noteq> None \<and>
   refreshToken empty_credential = [] \<and>
   refreshIfNeeded empty_credential 2000000 endpoint_down 2000000 = (None, False, empty_credential)"
proof -
  have a: "accessToken stale_credential \<noteq> []"
    by (simp add: stale_credential_def)
  have b: "exchange_failed (endpoint_down (refresh_form stale_credential))"
    "exchange_failed (endpoint_down (refresh_form lost_credential))"
    by (simp_all add: endpoint_down_def)
  have c: "isOAuth lost_credential" "accessToken lost_credential = []"
    "refreshToken lost_credential \<noteq> []"
    by (simp_all add: lost_credential_def)
  have d: "\<not> still_valid lost_credential 2000000"
    by (simp add: still_valid_def lost_credential_def normalize_expiry_def int64_def)
  have e: "refreshToken empty_credential = []"
    by (simp add: empty_credential_def)
  show ?thesis
    using a b c d e
      refreshIfNeeded_errors [of stale_credential 2000000 endpoint_down 2000000]
      refreshIfNeeded_errors [of lost_credential 2000000 endpoint_down 2000000]
      refreshIfNeeded_errors [of empty_credential 2000000 endpoint_down 2000000]
    by blast
qed

section \<open>Firewall: scrubbing text\<close>


















section \<open>Agent runtime: the loop\<close>

lemma emit_fields:
  "rs_completions (emit cb e st) = rs_completions st"
  "rs_executions (emit cb e st) = rs_executions st"
  "rs_memory (emit cb e st) = rs_memory st"
  "rs_clock (emit cb e st) = rs_clock st"
  by (simp_all add: emit_def)

lemma emit_terminal:
  "\<not> is_terminal e \<Longrightarrow> filter is_terminal (rs_trace (emit cb e st)) = filter is_terminal (rs_trace st)"
  by (simp add: emit_def)

lemma remember_fields:
  "rs_completions (remember w sid mk st) = rs_completions st"
  "rs_trace (remember w sid mk st) = rs_trace st"
  "rs_memory (remember w sid mk st) = Add (rs_memory st) sid (mk (clock w (rs_clock st)))"
  by (simp_all add: remember_def)

lemma run_tool_call_fields:
  "rs_completions (run_tool_call r w sid tc st) = rs_completions st"
  "filter is_terminal (rs_trace (run_tool_call r w sid tc st)) = filter is_terminal (rs_trace st)"
  by (simp_all add: run_tool_call_def Let_def remember_def emit_def)

lemma run_tool_calls_fields:
  "rs_completions (run_tool_calls r w sid tcs st) = rs_completions st \<and>
   filter is_terminal (rs_trace (run_tool_calls r w sid tcs st)) = filter is_terminal (rs_trace st)"
  by (induction tcs arbitrary: st) (simp_all add: run_tool_call_fields)


text \<open>The request that the loop sends from the state \<open>st\<close>.\<close>

lemma agent_loop_exhausted:
  "agent_loop r w ctx sid maxIterations st = (Some (MaxIterationsExceeded maxIterations), st)"
  by (subst agent_loop.simps) simp

lemma agent_loop_cancelled:
  "i < maxIterations \<Longrightarrow> ctx_done ctx i \<Longrightarrow> agent_loop r w ctx sid i st = (Some ContextError, st)"
  by (subst agent_loop.simps) simp

lemma agent_loop_tool_step:
  assumes "i < maxIterations" and "\<not> ctx_done ctx i"
    and "Complete (pathMatch w) (router r) ctx (rs_completions st)
           \<lparr>Messages = rs_promptCtx st, Tools = getToolDefs r, MaxTokens = 4096,
            Temperature = 0.1, Model = [], WorkingDir = []\<rparr> = Inr resp"
    and "rToolCalls resp \<noteq> []"
  shows "\<exists>st'. agent_loop r w ctx sid i st = agent_loop r w ctx sid (i + 1) st' \<and>
           rs_completions st' = Suc (rs_completions st) \<and>
           filter is_terminal (rs_trace st') = filter is_terminal (rs_trace st)"
proof -
  let ?st1 = "emit (OnThinking (callbacks r)) (Thinking ''Thinking...'') st"
  have c1: "rs_completions ?st1 = rs_completions st" and p1: "rs_promptCtx ?st1 = rs_promptCtx st"
    by (simp_all add: emit_def)
  let ?st2 = "?st1\<lparr>rs_completions := Suc (rs_completions ?st1)\<rparr>"
  let ?st3 = "remember w sid
     (\<lambda>now. \<lparr>Role = ''assistant'', Content = rContent resp, Timestamp = now,
              ToolCalls = rToolCalls resp, ToolCallID = [], ToolName = []\<rparr>) ?st2"
  let ?st4 = "run_tool_calls r w sid (rToolCalls resp) ?st3"
  have unfold: "agent_loop r w ctx sid i st = agent_loop r w ctx sid (i + 1) ?st4"
    using assms by (subst agent_loop.simps) (simp add: c1 p1 Let_def)
  have "rs_completions ?st4 = Suc (rs_completions st)"
    by (simp add: run_tool_calls_fields remember_fields c1)
  moreover have "filter is_terminal (rs_trace ?st4) = filter is_terminal (rs_trace st)"
    by (simp add: run_tool_calls_fields remember_fields emit_terminal)
  ultimately show ?thesis
    using unfold by blast
qed


lemma agent_loop_budget:
  assumes nc: "\<forall>i. \<not> ctx_done ctx i"
    and tc: "\<forall>k rq. Model rq = [] \<longrightarrow>
               (\<exists>resp. Complete (pathMatch w) (router r) ctx k rq = Inr resp \<and> rToolCalls resp \<noteq> [])"
  shows "i \<le> maxIterations \<Longrightarrow>
     \<exists>st'. agent_loop r w ctx sid i st = (Some (MaxIterationsExceeded maxIterations), st') \<and>
           rs_completions st' = rs_completions st + (maxIterations - i) \<and>
           filter is_terminal (rs_trace st') = filter is_terminal (rs_trace st)"
proof (induction "maxIterations - i" arbitrary: i st)
  case 0
  then have "i = maxIterations" by simp
  then show ?case by (simp add: agent_loop_exhausted)
next
  case (Suc n)
  then have less: "i < maxIterations" by simp
  let ?rq = "\<lparr>Messages = rs_promptCtx st, Tools = getToolDefs r, MaxTokens = 4096,
              Temperature = 0.1, Model = [], WorkingDir = []\<rparr>"
  from tc obtain resp where
    resp: "Complete (pathMatch w) (router r) ctx (rs_completions st) ?rq = Inr resp"
      "rToolCalls resp \<noteq> []"
    by (metis Request.select_convs(5))
  from agent_loop_tool_step [OF less _ resp] nc obtain st1 where
    st1: "agent_loop r w ctx sid i st = agent_loop r w ctx sid (i + 1) st1"
      "rs_completions st1 = Suc (rs_completions st)"
      "filter is_terminal (rs_trace st1) = filter is_terminal (rs_trace st)"
    by blast
  have "n = maxIterations - (i + 1)" and "i + 1 \<le> maxIterations"
    using Suc.hyps(2) less by simp_all
  from Suc.hyps(1) [OF this, of st1] obtain st' where
    "agent_loop r w ctx sid (i + 1) st1 = (Some (MaxIterationsExceeded maxIterations), st')"
    "rs_completions st' = rs_completions st1 + (maxIterations - (i + 1))"
    "filter is_terminal (rs_trace st') = filter is_terminal (rs_trace st1)"
    by blast
  with st1 less show ?case
    by (intro exI [of _ st']) simp
qed


lemma stub_router_completes:
  "Model rq = [] \<Longrightarrow>
   Complete glob (ollama_router reply) background_ctx k rq = Inr (reply k)"
  by (simp add: Complete_def selectProvider_def select_default_def ollama_router_def
      background_ctx_def provider_part_def stub_provider_def Let_def)

lemma stub_runtime_fields:
  "router (stub_runtime reply ex) = ollama_router reply"
  "memory (stub_runtime reply ex) = NewMemory"
  "toolExec (stub_runtime reply ex) = ex"
  "callbacks (stub_runtime reply ex) = all_callbacks"
  by (simp_all add: stub_runtime_def)

lemma plain_world_fields: "pathMatch plain_world = glob" "clock plain_world k = int k"
  by (simp_all add: plain_world_def)

lemma background_not_done: "\<forall>i. \<not> ctx_done background_ctx i"
  by (simp add: background_ctx_def)






text \<open>
  C8: the code at two failing inputs, with every callback set. With a context that is
  already cancelled, \<^verbatim>\<open>ProcessMessage\<close> returns the context error and no callback has been
  called. With a router that always asks for a tool, it returns the max-iterations error
  and none of \<^verbatim>\<open>OnResponse\<close>, \<^verbatim>\<open>OnDone\<close>, \<^verbatim>\<open>OnError\<close> has been called.
\<close>

theorem ProcessMessage_errors_without_OnError:
  "OnError (callbacks (stub_runtime final_reply None)) \<and>
   fst (ProcessMessage (stub_runtime final_reply None) plain_world cancelled_ctx ''s'' ''hi'') =
     Some ContextError \<and>
   rs_trace (snd (ProcessMessage (stub_runtime final_reply None) plain_world cancelled_ctx
     ''s'' ''hi'')) = [] \<and>
   OnError (callbacks (stub_runtime tool_reply None)) \<and>
   fst (ProcessMessage (stub_runtime tool_reply None) plain_world background_ctx ''s'' ''hi'') =
     Some (MaxIterationsExceeded 20) \<and>
   filter is_terminal (rs_trace (snd (ProcessMessage (stub_runtime tool_reply None) plain_world
     background_ctx ''s'' ''hi''))) = []"
proof -
  have cb: "OnError (callbacks (stub_runtime reply None))" for reply
    by (simp add: stub_runtime_fields all_callbacks_def)
  have cancelled: "ProcessMessage (stub_runtime final_reply None) plain_world cancelled_ctx ''s'' ''hi'' =
      (Some ContextError,
       (remember plain_world ''s''
          (\<lambda>now. \<lparr>Role = ''user'', Content = ''hi'', Timestamp = now, ToolCalls = [],
                   ToolCallID = [], ToolName = []\<rparr>)
          \<lparr>rs_memory = memory (stub_runtime final_reply None), rs_trace = [],
           rs_completions = 0, rs_executions = 0, rs_clock = 0, rs_promptCtx = []\<rparr>)
        \<lparr>rs_promptCtx := buildContext (stub_runtime final_reply None)
           (rs_memory (remember plain_world ''s''
             (\<lambda>now. \<lparr>Role = ''user'', Content = ''hi'', Timestamp = now, ToolCalls = [],
                      ToolCallID = [], ToolName = []\<rparr>)
             \<lparr>rs_memory = memory (stub_runtime final_reply None), rs_trace = [],
              rs_completions = 0, rs_executions = 0, rs_clock = 0, rs_promptCtx = []\<rparr>))
           ''s''\<rparr>)"
    unfolding ProcessMessage_def Let_def
    by (rule agent_loop_cancelled) (simp_all add: maxIterations_def cancelled_ctx_def)
  have t1: "rs_trace (snd (ProcessMessage (stub_runtime final_reply None) plain_world
      cancelled_ctx ''s'' ''hi'')) = []"
    unfolding cancelled by (simp add: remember_def)
  have hyp: "\<forall>k rq. Model rq = [] \<longrightarrow>
      (\<exists>resp. Complete (pathMatch plain_world) (router (stub_runtime tool_reply None))
                background_ctx k rq = Inr resp \<and> rToolCalls resp \<noteq> [])"
    by (simp add: stub_runtime_fields plain_world_fields stub_router_completes tool_reply_def)
  let ?st0 = "remember plain_world ''s''
     (\<lambda>now. \<lparr>Role = ''user'', Content = ''hi'', Timestamp = now, ToolCalls = [],
              ToolCallID = [], ToolName = []\<rparr>)
     \<lparr>rs_memory = memory (stub_runtime tool_reply None), rs_trace = [], rs_completions = 0,
      rs_executions = 0, rs_clock = 0, rs_promptCtx = []\<rparr>"
  let ?st1 = "?st0\<lparr>rs_promptCtx := buildContext (stub_runtime tool_reply None) (rs_memory ?st0) ''s''\<rparr>"
  have start: "ProcessMessage (stub_runtime tool_reply None) plain_world background_ctx ''s'' ''hi'' =
      agent_loop (stub_runtime tool_reply None) plain_world background_ctx ''s'' 0 ?st1"
    by (simp add: ProcessMessage_def Let_def)
  have empty: "rs_trace ?st1 = []"
    by (simp add: remember_def)
  from agent_loop_budget [OF background_not_done hyp, of 0 "''s''" ?st1] obtain st' where
    "agent_loop (stub_runtime tool_reply None) plain_world background_ctx ''s'' 0 ?st1 =
       (Some (MaxIterationsExceeded maxIterations), st')"
    "filter is_terminal (rs_trace st') = filter is_terminal (rs_trace ?st1)"
    by blast
  then have t2: "fst (ProcessMessage (stub_runtime tool_reply None) plain_world background_ctx
        ''s'' ''hi'') = Some (MaxIterationsExceeded 20)"
    and t3: "filter is_terminal (rs_trace (snd (ProcessMessage (stub_runtime tool_reply None)
        plain_world background_ctx ''s'' ''hi''))) = []"
    unfolding start empty by (simp_all add: maxIterations_def)
  show ?thesis
    using cb cancelled t1 t2 t3 by simp
qed


end
